theory Spec2Isabelle
  imports Complex_Main "HOL-Library.Word"
begin

section \<open>JavaScript values and strings of the mini-program pages\<close>

text \<open>
  The two pages are \<^verbatim>\<open>miniprogram/pages/index/index.js\<close> (the plain page) and the
  second \<^verbatim>\<open>index.js\<close> of the repository (the page that plays a rewarded video
  first). A JavaScript string is its sequence of UTF-16 code units; the Chinese
  literals of the source are written by their code units.
\<close>

type_synonym js_string = "16 word list"

definition ascii :: "string \<Rightarrow> js_string" where
  "ascii s = map (\<lambda>c. of_nat (of_char c)) s"

text \<open>
  A value that JSON can carry, plus \<^verbatim>\<open>undefined\<close>. A number is the real it
  denotes (JSON has no NaN). An object lists its own properties; keys are unique.
\<close>

datatype js_value =
    JUndefined
  | JNull
  | JBool bool
  | JNum real
  | JStr js_string
  | JArr "js_value list"
  | JObj "(js_string \<times> js_value) list"

datatype js_error = TypeError

text \<open>ToBoolean.\<close>

fun truthy :: "js_value \<Rightarrow> bool" where
  "truthy JUndefined = False"
| "truthy JNull = False"
| "truthy (JBool b) = b"
| "truthy (JNum x) = (x \<noteq> 0)"
| "truthy (JStr s) = (s \<noteq> [])"
| "truthy (JArr xs) = True"
| "truthy (JObj fs) = True"

text \<open>\<^verbatim>\<open>a || b\<close> and \<^verbatim>\<open>a && b\<close> on values.\<close>

definition js_or :: "js_value \<Rightarrow> js_value \<Rightarrow> js_value" where
  "js_or a b = (if truthy a then a else b)"

definition js_and :: "js_value \<Rightarrow> js_value \<Rightarrow> js_value" where
  "js_and a b = (if truthy a then b else a)"

fun is_JStr :: "js_value \<Rightarrow> bool" where
  "is_JStr (JStr s) = True"
| "is_JStr v = False"

text \<open>
  The code units \<^verbatim>\<open>String.prototype.trim\<close> strips: ECMAScript's WhiteSpace
  (TAB, VT, FF, SP, NBSP, ZWNBSP and the space separators) and LineTerminator
  (LF, CR, LS, PS).
\<close>

definition is_js_whitespace :: "16 word \<Rightarrow> bool" where
  "is_js_whitespace c \<longleftrightarrow>
     c = 0x0009 \<or> c = 0x000A \<or> c = 0x000B \<or> c = 0x000C \<or> c = 0x000D \<or>
     c = 0x0020 \<or> c = 0x00A0 \<or> c = 0x1680 \<or> (0x2000 \<le> c \<and> c \<le> 0x200A) \<or>
     c = 0x2028 \<or> c = 0x2029 \<or> c = 0x202F \<or> c = 0x205F \<or> c = 0x3000 \<or>
     c = 0xFEFF"

definition trim :: "js_string \<Rightarrow> js_string" where
  "trim s = rev (dropWhile is_js_whitespace (rev (dropWhile is_js_whitespace s)))"

text \<open>
  Property read \<^verbatim>\<open>v.response\<close> on a value that is neither null nor undefined:
  only an object can own the property.
\<close>

fun get_response :: "js_value \<Rightarrow> js_value" where
  "get_response (JObj fs) =
     (case map_of fs (ascii ''response'') of Some v \<Rightarrow> v | None \<Rightarrow> JUndefined)"
| "get_response v = JUndefined"

subsection \<open>String literals of the pages\<close>

text \<open>The toast title "please enter the question" (7 characters).\<close>

definition msg_enter_question :: js_string where
  "msg_enter_question = [0x8BF7, 0x8F93, 0x5165, 0x9898, 0x76EE, 0x5185, 0x5BB9]"

text \<open>The toast title "AI is thinking, about 10-20 seconds".\<close>

definition msg_thinking :: js_string where
  "msg_thinking = [0x0041, 0x0049, 0x6B63, 0x5728, 0x601D, 0x8003, 0x4E2D, 0xFF0C,
     0x9884, 0x8BA1, 0x0031, 0x0030, 0x002D, 0x0032, 0x0030, 0x79D2]"

text \<open>"the server returned data in a wrong format".\<close>

definition msg_format_error :: js_string where
  "msg_format_error = [0x670D, 0x52A1, 0x5668, 0x8FD4, 0x56DE, 0x6570, 0x636E, 0x683C,
     0x5F0F, 0x9519, 0x8BEF]"

text \<open>"the request failed, please try again later".\<close>

definition msg_request_failed :: js_string where
  "msg_request_failed = [0x8BF7, 0x6C42, 0x5931, 0x8D25, 0xFF0C, 0x8BF7, 0x7A0D, 0x540E,
     0x518D, 0x8BD5]"

text \<open>"network error, please check the network connection".\<close>

definition msg_network_error :: js_string where
  "msg_network_error = [0x7F51, 0x7EDC, 0x9519, 0x8BEF, 0xFF0C, 0x8BF7, 0x68C0, 0x67E5,
     0x7F51, 0x7EDC, 0x8FDE, 0x63A5]"

text \<open>The two keys of \<^verbatim>\<open>requestData\<close>: "question" and "answer" in Chinese.\<close>

definition key_question :: js_string where
  "key_question = [0x9898, 0x76EE]"

definition key_answer :: js_string where
  "key_answer = [0x7B54, 0x6848]"

definition adUnitId :: js_string where
  "adUnitId = ascii ''adunit-xxxxxxxxxxxxxxxx''"

section \<open>The pages\<close>

text \<open>
  \<^verbatim>\<open>data\<close> of the plain page, and of the page with the advertisement, which adds
  \<^verbatim>\<open>showingAd\<close>.
\<close>

record page_data =
  question :: js_string
  answer :: js_string
  response :: js_value
  isLoading :: bool

record ad_page_data = page_data +
  showingAd :: bool

text \<open>
  The argument of \<^verbatim>\<open>wx.request\<close> (its \<^verbatim>\<open>data\<close> is \<open>req_data\<close> here, its
  \<^verbatim>\<open>method\<close> is \<open>http_method\<close>), and the \<^verbatim>\<open>res\<close> its success callback receives
  (its \<^verbatim>\<open>data\<close> is \<open>res_data\<close>).
\<close>

record request_data =
  prompt :: js_string
  format :: js_string

record request_options =
  url :: js_string
  http_method :: js_string
  timeout :: nat
  req_data :: request_data

record request_result =
  statusCode :: int
  res_data :: js_value

text \<open>
  What lies outside the two files: \<^verbatim>\<open>getApp().globalData.apiBaseUrl\<close> and the
  built-in \<^verbatim>\<open>JSON.stringify\<close>.
\<close>

record app_env =
  apiBaseUrl :: js_string
  json_stringify :: "js_value \<Rightarrow> js_string"

text \<open>
  The calls a handler makes to the platform, in order: \<^verbatim>\<open>wx.showToast\<close> (title,
  icon, duration), \<^verbatim>\<open>wx.request\<close>, \<^verbatim>\<open>wx.createRewardedVideoAd\<close>, the three
  registrations on the advertisement and its \<^verbatim>\<open>show()\<close>.
\<close>

datatype platform_call =
    ShowToast js_string js_string nat
  | Request request_options
  | CreateRewardedVideoAd js_string
  | AdOnLoad
  | AdOnError
  | AdOnClose
  | AdShow

text \<open>The object \<^verbatim>\<open>requestData\<close> and the request built from it.\<close>

definition requestData :: "'a page_data_scheme \<Rightarrow> js_value" where
  "requestData d =
     JObj [(key_question, JStr (question d)),
           (key_answer, js_or (JStr (trim (answer d))) JNull)]"

definition chat_request :: "app_env \<Rightarrow> 'a page_data_scheme \<Rightarrow> request_options" where
  "chat_request env d =
     \<lparr> url = apiBaseUrl env @ ascii ''/api/chat'',
       http_method = ascii ''POST'',
       timeout = 60000,
       req_data = \<lparr> prompt = json_stringify env (requestData d), format = ascii ''text'' \<rparr> \<rparr>"

subsection \<open>The plain page\<close>

definition submitContent :: "app_env \<Rightarrow> page_data \<Rightarrow> page_data \<times> platform_call list" where
  "submitContent env d =
     (if \<not> truthy (JStr (trim (question d)))
      then (d, [ShowToast msg_enter_question (ascii ''none'') 2000])
      else (let d1 = d\<lparr>isLoading := True\<rparr> in (d1, [Request (chat_request env d1)])))"

subsection \<open>The callbacks of the request, the same in both pages\<close>

text \<open>
  The success callback first logs three lines. The third evaluates
  \<^verbatim>\<open>res.data && res.data.response ? res.data.response.substring(0, 100) : 'null'\<close>:
  when the \<^verbatim>\<open>response\<close> property is truthy and not a string it has no
  \<^verbatim>\<open>substring\<close> method and the call raises a TypeError, before the page is
  touched. The two other lines read \<^verbatim>\<open>length\<close>, which raises nothing.
\<close>

definition success_callback ::
  "request_result \<Rightarrow> 'a page_data_scheme \<Rightarrow> js_error + 'a page_data_scheme" where
  "success_callback res d =
     (let logged = js_and (res_data res) (get_response (res_data res)) in
      if truthy logged \<and> \<not> is_JStr logged then Inl TypeError
      else if statusCode res = 200 \<and> truthy (res_data res)
      then (let responseText = js_or (get_response (res_data res)) (JStr msg_format_error)
            in Inr (d\<lparr>response := responseText\<rparr>))
      else Inr (d\<lparr>response := JStr msg_request_failed\<rparr>))"

definition fail_callback :: "'a page_data_scheme \<Rightarrow> 'a page_data_scheme" where
  "fail_callback d = d\<lparr>response := JStr msg_network_error\<rparr>"

definition complete_callback :: "'a page_data_scheme \<Rightarrow> 'a page_data_scheme" where
  "complete_callback d = d\<lparr>isLoading := False\<rparr>"

text \<open>
  How \<^verbatim>\<open>wx.request\<close> ends: with a response of any status (success callback), or
  with no response, by a network failure or by the timeout (fail callback); the
  complete callback runs after either. The platform runs each callback guarded, so an
  exception in the success callback is reported and the page is as it was before it.
\<close>

datatype request_outcome = Responded request_result | NetworkFailure | TimedOut

definition finish_request :: "request_outcome \<Rightarrow> 'a page_data_scheme \<Rightarrow> 'a page_data_scheme" where
  "finish_request outcome d =
     complete_callback
       (case outcome of
          Responded res \<Rightarrow> (case success_callback res d of Inl e \<Rightarrow> d | Inr d1 \<Rightarrow> d1)
        | NetworkFailure \<Rightarrow> fail_callback d
        | TimedOut \<Rightarrow> fail_callback d)"

subsection \<open>The page with the advertisement\<close>

definition sendRequest :: "app_env \<Rightarrow> ad_page_data \<Rightarrow> platform_call list" where
  "sendRequest env d = [Request (chat_request env d)]"

definition playAdAndSubmit :: "ad_page_data \<Rightarrow> ad_page_data \<times> platform_call list" where
  "playAdAndSubmit d =
     (d\<lparr>showingAd := True\<rparr>,
      [CreateRewardedVideoAd adUnitId,
       ShowToast msg_thinking (ascii ''loading'') 2000,
       AdOnLoad, AdOnError, AdOnClose, AdShow])"

definition submitContent_ad :: "ad_page_data \<Rightarrow> ad_page_data \<times> platform_call list" where
  "submitContent_ad d =
     (if \<not> truthy (JStr (trim (question d)))
      then (d, [ShowToast msg_enter_question (ascii ''none'') 2000])
      else playAdAndSubmit (d\<lparr>isLoading := True\<rparr>))"

text \<open>
  The three handlers \<^verbatim>\<open>playAdAndSubmit\<close> installs: \<^verbatim>\<open>videoAd.onError\<close>,
  \<^verbatim>\<open>videoAd.onClose\<close> (its argument says whether the video was watched to the
  end; the handler does not read it) and the \<^verbatim>\<open>catch\<close> of \<^verbatim>\<open>videoAd.show()\<close>.
\<close>

definition ad_onError :: "app_env \<Rightarrow> ad_page_data \<Rightarrow> ad_page_data \<times> platform_call list" where
  "ad_onError env d = (let d1 = d\<lparr>showingAd := False\<rparr> in (d1, sendRequest env d1))"

definition ad_onClose :: "app_env \<Rightarrow> bool \<Rightarrow> ad_page_data \<Rightarrow> ad_page_data \<times> platform_call list" where
  "ad_onClose env isEnded d = (let d1 = d\<lparr>showingAd := False\<rparr> in (d1, sendRequest env d1))"

definition ad_show_catch :: "app_env \<Rightarrow> ad_page_data \<Rightarrow> ad_page_data \<times> platform_call list" where
  "ad_show_catch env d = (let d1 = d\<lparr>showingAd := False\<rparr> in (d1, sendRequest env d1))"

datatype ad_outcome = AdLoadError | AdClosed bool | AdShowFailed

fun ad_finished :: "app_env \<Rightarrow> ad_outcome \<Rightarrow> ad_page_data \<Rightarrow> ad_page_data \<times> platform_call list" where
  "ad_finished env AdLoadError d = ad_onError env d"
| "ad_finished env (AdClosed isEnded) d = ad_onClose env isEnded d"
| "ad_finished env AdShowFailed d = ad_show_catch env d"

text \<open>Whether a list of platform calls reaches the backend.\<close>

fun is_Request :: "platform_call \<Rightarrow> bool" where
  "is_Request (Request r) = True"
| "is_Request c = False"

definition contacts_backend :: "platform_call list \<Rightarrow> bool" where
  "contacts_backend calls = list_ex is_Request calls"

section \<open>The Admission Controller of the backend\<close>

text \<open>
  The backend's Python modules are not among the source files of the repository; of
  the Admission Controller the sources hold the two defaults, in the help text of
  \<^verbatim>\<open>backend/start.sh\<close> (MAX_CONCURRENT_REQUESTS 10, RATE_LIMIT_PER_MINUTE 60).
  The definitions of this section follow sections 3 and 4.1 of the specification.
  Time is counted in whole seconds, one bucket per second.
\<close>

record admission_config =
  max_concurrent_requests :: nat
  rate_limit_per_minute :: nat

definition default_admission_config :: admission_config where
  "default_admission_config = \<lparr> max_concurrent_requests = 10, rate_limit_per_minute = 60 \<rparr>"

text \<open>
  Modelled from the spec: the Admission State, "in_flight_count: integer" and
  "window_counts: ordered sequence of (timestamp, count) covering the trailing 60
  seconds". The newest bucket is the head of the list.
\<close>

record admission_state =
  in_flight_count :: int
  window_counts :: "(nat \<times> nat) list"

datatype reject_reason = RateLimited | ConcurrencyExceeded

datatype admission = Admitted | Rejected reject_reason

definition initial_admission :: admission_state where
  "initial_admission = \<lparr> in_flight_count = 0, window_counts = [] \<rparr>"

definition window_sum :: "(nat \<times> nat) list \<Rightarrow> nat" where
  "window_sum w = sum_list (map snd w)"

text \<open>
  Modelled from the spec: the rate gate "expires buckets older than 60 seconds on each
  check". The bucket of second \<open>t\<close> is older than 60 seconds at \<open>now\<close> when
  \<open>t + 60 < now\<close>.
\<close>

definition expire_buckets :: "nat \<Rightarrow> (nat \<times> nat) list \<Rightarrow> (nat \<times> nat) list" where
  "expire_buckets now w = filter (\<lambda>(t, c). now \<le> t + 60) w"

text \<open>Modelled from the spec: counting one admitted request in the bucket of its second.\<close>

fun record_request :: "nat \<Rightarrow> (nat \<times> nat) list \<Rightarrow> (nat \<times> nat) list" where
  "record_request now [] = [(now, 1)]"
| "record_request now ((t, c) # w) =
     (if t = now then (t, c + 1) # w else (now, 1) # (t, c) # w)"

text \<open>
  Modelled from the spec: \<^verbatim>\<open>try_acquire() -> Admitted | Rejected(reason)\<close>. The
  rate gate "fails with RateLimited when the summed count at call time is at or above
  the limit"; the concurrency gate "fails immediately with ConcurrencyExceeded when
  the semaphore is saturated"; "successful acquisition increments both counters". The
  rate gate is asked first, the order in which the specification names the two checks.
\<close>

definition try_acquire ::
  "admission_config \<Rightarrow> nat \<Rightarrow> admission_state \<Rightarrow> admission \<times> admission_state" where
  "try_acquire cfg now s =
     (let w = expire_buckets now (window_counts s) in
      if rate_limit_per_minute cfg \<le> window_sum w
      then (Rejected RateLimited, s\<lparr>window_counts := w\<rparr>)
      else if int (max_concurrent_requests cfg) \<le> in_flight_count s
      then (Rejected ConcurrencyExceeded, s\<lparr>window_counts := w\<rparr>)
      else (Admitted, \<lparr> in_flight_count = in_flight_count s + 1,
                        window_counts = record_request now w \<rparr>))"

text \<open>
  Modelled from the spec: \<^verbatim>\<open>release()\<close> "decrements only the concurrency counter".
  The semaphore is bounded: a release with nothing in flight is refused (\<open>None\<close>).
\<close>

definition release :: "admission_state \<Rightarrow> admission_state option" where
  "release s =
     (if 0 < in_flight_count s then Some (s\<lparr>in_flight_count := in_flight_count s - 1\<rparr>)
      else None)"

text \<open>
  The counters are updated under mutual exclusion (section 5 of the specification), so
  concurrent callers act one after the other: a run of the controller is a list of
  events. A refused release leaves the state as it is.
\<close>

datatype admission_event = TryAcquire nat | Release

fun after_event :: "admission_config \<Rightarrow> admission_event \<Rightarrow> admission_state \<Rightarrow> admission_state" where
  "after_event cfg (TryAcquire now) s = snd (try_acquire cfg now s)"
| "after_event cfg Release s = (case release s of Some s1 \<Rightarrow> s1 | None \<Rightarrow> s)"

fun final_state :: "admission_config \<Rightarrow> admission_event list \<Rightarrow> admission_state \<Rightarrow> admission_state" where
  "final_state cfg [] s = s"
| "final_state cfg (ev # evs) s = final_state cfg evs (after_event cfg ev s)"

text \<open>What the \<open>TryAcquire\<close> events of a run return, in order.\<close>

fun outcomes :: "admission_config \<Rightarrow> admission_event list \<Rightarrow> admission_state \<Rightarrow> admission list" where
  "outcomes cfg [] s = []"
| "outcomes cfg (TryAcquire now # evs) s =
     fst (try_acquire cfg now s) # outcomes cfg evs (after_event cfg (TryAcquire now) s)"
| "outcomes cfg (Release # evs) s = outcomes cfg evs (after_event cfg Release s)"

definition count_admitted :: "admission list \<Rightarrow> nat" where
  "count_admitted rs = length (filter (\<lambda>r. r = Admitted) rs)"

fun acquire_times :: "admission_event list \<Rightarrow> nat list" where
  "acquire_times [] = []"
| "acquire_times (TryAcquire t # evs) = t # acquire_times evs"
| "acquire_times (Release # evs) = acquire_times evs"

text \<open>The window never holds more than the limit, and no empty bucket.\<close>

definition window_ok :: "nat \<Rightarrow> (nat \<times> nat) list \<Rightarrow> bool" where
  "window_ok limit w \<longleftrightarrow> window_sum w \<le> limit \<and> list_all (\<lambda>(t, c). 0 < c) w"

text \<open>Sixty requests, one in each second of a minute, each released when it is done.\<close>

definition sixty_requests :: "admission_event list" where
  "sixty_requests = concat (map (\<lambda>t. [TryAcquire t, Release]) [0..<60])"

subsection \<open>Concrete pages and responses\<close>

definition example_env :: app_env where
  "example_env = \<lparr> apiBaseUrl = ascii ''https://example.org'', json_stringify = (\<lambda>v. []) \<rparr>"


definition filled_ad_page :: ad_page_data where
  "filled_ad_page = \<lparr> question = ascii ''topic'', answer = ascii '' essay'',
                       response = JStr [], isLoading = False, showingAd = False \<rparr>"


section \<open>The guard of the question field\<close>

lemma trim_Nil: "trim [] = []"
  by (simp add: trim_def)

lemma chat_request_isLoading: "chat_request env (d\<lparr>isLoading := b\<rparr>) = chat_request env d"
  by (simp add: chat_request_def requestData_def)

lemma chat_request_showingAd: "chat_request env (d\<lparr>showingAd := b\<rparr>) = chat_request env d"
  by (simp add: chat_request_def requestData_def)

text \<open>
  What the pages themselves check: \<^verbatim>\<open>submitContent\<close> of either page returns
  early when the question is empty after trimming. The page data are as they were, the
  only call to the platform is the toast "please enter the question" with icon
  \<^verbatim>\<open>none\<close> for 2000 ms, and no \<^verbatim>\<open>wx.request\<close> is issued. The guard reads the
  question field only; \<^verbatim>\<open>sendRequest\<close> of the page with the advertisement has
  no guard of its own, and the prompt the pages send is the \<^verbatim>\<open>JSON.stringify\<close>
  of an object.
\<close>

lemma blank_question_rejected:
  assumes "trim (question d) = []" and "trim (question a) = []"
  shows "submitContent env d = (d, [ShowToast msg_enter_question (ascii ''none'') 2000])
       \<and> submitContent_ad a = (a, [ShowToast msg_enter_question (ascii ''none'') 2000])
       \<and> \<not> contacts_backend (snd (submitContent env d))
       \<and> \<not> contacts_backend (snd (submitContent_ad a))
       \<and> msg_enter_question \<noteq> []
       \<and> msg_enter_question \<noteq> msg_request_failed
       \<and> msg_enter_question \<noteq> msg_network_error
       \<and> msg_enter_question \<noteq> msg_format_error
       \<and> msg_enter_question \<noteq> msg_thinking"
  using assms
  by (simp add: submitContent_def submitContent_ad_def contacts_backend_def
      msg_enter_question_def msg_request_failed_def msg_network_error_def
      msg_format_error_def msg_thinking_def)

section \<open>The request of the page and the test of its response\<close>

lemma success_callback_typed:
  assumes "truthy (get_response (res_data res)) \<longrightarrow> is_JStr (get_response (res_data res))"
  shows "success_callback res p =
     Inr (p\<lparr>response :=
            if statusCode res = 200 \<and> truthy (res_data res)
            then js_or (get_response (res_data res)) (JStr msg_format_error)
            else JStr msg_request_failed\<rparr>)"
  using assms
  by (cases "res_data res") (auto simp add: success_callback_def js_and_def Let_def)

text \<open>
  What the pages send and how they read a response whose \<^verbatim>\<open>data.response\<close> is
  falsy or a string. On the plain page a submission whose question is not empty after
  trimming raises \<^verbatim>\<open>isLoading\<close> and issues exactly one request; on the page with
  the advertisement \<^verbatim>\<open>sendRequest\<close> issues the same request from the page data it
  finds when it runs. The request is a POST to \<^verbatim>\<open>apiBaseUrl + "/api/chat"\<close> with a
  timeout of 60000 ms; its prompt is \<^verbatim>\<open>JSON.stringify\<close> of the untrimmed question
  and of the trimmed answer, or \<^verbatim>\<open>null\<close> when that is empty; its format is
  \<^verbatim>\<open>"text"\<close>. For such a response the success callback takes the success branch
  exactly when the status is 200 and \<^verbatim>\<open>res.data\<close> is truthy.
\<close>

lemma chat_request_and_success_test:
  "(trim (question d) \<noteq> [] \<longrightarrow>
      submitContent env d = (d\<lparr>isLoading := True\<rparr>, [Request (chat_request env d)]))
   \<and> sendRequest env a = [Request (chat_request env a)]
   \<and> chat_request env p =
       \<lparr> url = apiBaseUrl env @ ascii ''/api/chat'',
         http_method = ascii ''POST'',
         timeout = 60000,
         req_data =
           \<lparr> prompt = json_stringify env
               (JObj [(key_question, JStr (question p)),
                      (key_answer, if trim (answer p) = [] then JNull
                                   else JStr (trim (answer p)))]),
             format = ascii ''text'' \<rparr> \<rparr>
   \<and> ((truthy (get_response (res_data res)) \<longrightarrow> is_JStr (get_response (res_data res))) \<longrightarrow>
        success_callback res q =
          Inr (q\<lparr>response :=
                 if statusCode res = 200 \<and> truthy (res_data res)
                 then js_or (get_response (res_data res)) (JStr msg_format_error)
                 else JStr msg_request_failed\<rparr>))"
proof -
  have "trim (question d) \<noteq> [] \<longrightarrow>
      submitContent env d = (d\<lparr>isLoading := True\<rparr>, [Request (chat_request env d)])"
    by (simp add: submitContent_def Let_def chat_request_isLoading)
  moreover have "sendRequest env a = [Request (chat_request env a)]"
    by (simp add: sendRequest_def)
  moreover have "chat_request env p =
       \<lparr> url = apiBaseUrl env @ ascii ''/api/chat'',
         http_method = ascii ''POST'',
         timeout = 60000,
         req_data =
           \<lparr> prompt = json_stringify env
               (JObj [(key_question, JStr (question p)),
                      (key_answer, if trim (answer p) = [] then JNull
                                   else JStr (trim (answer p)))]),
             format = ascii ''text'' \<rparr> \<rparr>"
    by (simp add: chat_request_def requestData_def js_or_def)
  moreover have "(truthy (get_response (res_data res)) \<longrightarrow> is_JStr (get_response (res_data res))) \<longrightarrow>
        success_callback res q =
          Inr (q\<lparr>response :=
                 if statusCode res = 200 \<and> truthy (res_data res)
                 then js_or (get_response (res_data res)) (JStr msg_format_error)
                 else JStr msg_request_failed\<rparr>)"
    using success_callback_typed [of res q] by blast
  ultimately show ?thesis by blast
qed


section \<open>The advertisement never withholds the request\<close>

text \<open>
  Claim C10. On the page with the advertisement a valid submission raises
  \<^verbatim>\<open>isLoading\<close> and \<^verbatim>\<open>showingAd\<close>, creates the rewarded video, registers the
  three handlers and shows it. Whatever way the advertisement ends (load error, closed
  with the video watched to the end or not, \<^verbatim>\<open>show()\<close> rejected), the handler
  lowers \<^verbatim>\<open>showingAd\<close> and calls \<^verbatim>\<open>sendRequest\<close>, which issues the chat request.
  In both pages the request, whether it ends with a response, a network failure or
  the timeout, ends with \<^verbatim>\<open>isLoading\<close> lowered by the complete callback.
\<close>

theorem request_follows_every_ad_outcome:
  "ad_finished env outcome a = (a\<lparr>showingAd := False\<rparr>, sendRequest env (a\<lparr>showingAd := False\<rparr>))
   \<and> sendRequest env (a\<lparr>showingAd := False\<rparr>) = [Request (chat_request env a)]
   \<and> \<not> showingAd (fst (ad_finished env outcome a))
   \<and> contacts_backend (snd (ad_finished env outcome a))
   \<and> (trim (question b) \<noteq> [] \<longrightarrow>
        submitContent_ad b =
          (b\<lparr>isLoading := True, showingAd := True\<rparr>,
           [CreateRewardedVideoAd adUnitId, ShowToast msg_thinking (ascii ''loading'') 2000,
            AdOnLoad, AdOnError, AdOnClose, AdShow])
        \<and> ad_finished env outcome (fst (submitContent_ad b)) =
          (b\<lparr>isLoading := True, showingAd := False\<rparr>, [Request (chat_request env b)]))
   \<and> \<not> isLoading (complete_callback p)
   \<and> \<not> isLoading (finish_request ending p)"
proof -
  have fin: "ad_finished env outcome x = (x\<lparr>showingAd := False\<rparr>, sendRequest env (x\<lparr>showingAd := False\<rparr>))"
    for x
    by (cases outcome) (simp_all add: ad_onError_def ad_onClose_def ad_show_catch_def Let_def)
  have send: "sendRequest env (x\<lparr>showingAd := False\<rparr>) = [Request (chat_request env x)]" for x
    by (simp add: sendRequest_def chat_request_showingAd)
  have sub: "trim (question b) \<noteq> [] \<longrightarrow>
        submitContent_ad b =
          (b\<lparr>isLoading := True, showingAd := True\<rparr>,
           [CreateRewardedVideoAd adUnitId, ShowToast msg_thinking (ascii ''loading'') 2000,
            AdOnLoad, AdOnError, AdOnClose, AdShow])"
    by (simp add: submitContent_ad_def playAdAndSubmit_def)
  have flow: "trim (question b) \<noteq> [] \<longrightarrow>
        ad_finished env outcome (fst (submitContent_ad b)) =
          (b\<lparr>isLoading := True, showingAd := False\<rparr>, [Request (chat_request env b)])"
    by (simp add: submitContent_ad_def playAdAndSubmit_def fin send chat_request_isLoading)
  have done1: "\<not> isLoading (complete_callback p)"
    by (simp add: complete_callback_def)
  have done2: "\<not> isLoading (finish_request ending p)"
    by (simp add: finish_request_def complete_callback_def)
  have reach: "contacts_backend (snd (ad_finished env outcome a))"
    by (simp add: fin send contacts_backend_def)
  have low: "\<not> showingAd (fst (ad_finished env outcome a))"
    by (simp add: fin)
  from fin [of a] send [of a] low reach sub flow done1 done2 show ?thesis by blast
qed

text \<open>
  The advertisement is closed before the video has ended; the request is issued all
  the same, and when it times out the page stops loading.
\<close>

theorem request_follows_every_ad_outcome_witness:
  "trim (question filled_ad_page) \<noteq> []
   \<and> ad_finished example_env (AdClosed False) (fst (submitContent_ad filled_ad_page)) =
       (filled_ad_page\<lparr>isLoading := True, showingAd := False\<rparr>,
        [Request (chat_request example_env filled_ad_page)])
   \<and> \<not> isLoading (finish_request TimedOut (filled_ad_page\<lparr>isLoading := True, showingAd := False\<rparr>))"
proof -
  have h: "trim (question filled_ad_page) \<noteq> []"
    by (simp add: filled_ad_page_def trim_def is_js_whitespace_def ascii_def)
  from request_follows_every_ad_outcome
         [of example_env "AdClosed False" filled_ad_page filled_ad_page
             "filled_ad_page\<lparr>isLoading := True, showingAd := False\<rparr>" TimedOut] h
  show ?thesis by blast
qed

section \<open>The two gates of the Admission Controller\<close>

lemma window_sum_expire_le: "window_sum (expire_buckets now w) \<le> window_sum w"
  by (induction w) (auto simp: window_sum_def expire_buckets_def)

lemma window_sum_record: "window_sum (record_request now w) = window_sum w + 1"
  by (cases w) (auto simp: window_sum_def)

text \<open>
  Attempts with no release in between, from a state with \<open>k\<close> requests in flight whose
  window leaves room for the free slots: the free slots are handed out, then every
  attempt meets the saturated semaphore.
\<close>

lemma acquire_only:
  assumes "in_flight_count s = int k" "k \<le> max_concurrent_requests cfg"
    "window_sum (window_counts s) + (max_concurrent_requests cfg - k) < rate_limit_per_minute cfg"
  shows "outcomes cfg (map TryAcquire ts) s =
     replicate (min (length ts) (max_concurrent_requests cfg - k)) Admitted @
     replicate (length ts - (max_concurrent_requests cfg - k)) (Rejected ConcurrencyExceeded)"
  using assms
proof (induction ts arbitrary: s k)
  case Nil
  then show ?case by simp
next
  case (Cons t ts)
  let ?w = "expire_buckets t (window_counts s)"
  have le: "window_sum ?w \<le> window_sum (window_counts s)" by (rule window_sum_expire_le)
  with Cons.prems have open_gate: "\<not> rate_limit_per_minute cfg \<le> window_sum ?w" by linarith
  show ?case
  proof (cases "k < max_concurrent_requests cfg")
    case True
    define s1 where "s1 = \<lparr> in_flight_count = in_flight_count s + 1, window_counts = record_request t ?w \<rparr>"
    have step: "try_acquire cfg t s = (Admitted, s1)"
      using True Cons.prems open_gate by (simp add: try_acquire_def Let_def s1_def)
    have "in_flight_count s1 = int (Suc k)" using Cons.prems by (simp add: s1_def)
    moreover have "Suc k \<le> max_concurrent_requests cfg" using True by simp
    moreover have "window_sum (window_counts s1) + (max_concurrent_requests cfg - Suc k) < rate_limit_per_minute cfg"
      using le Cons.prems True by (simp add: s1_def window_sum_record)
    ultimately have IH: "outcomes cfg (map TryAcquire ts) s1 =
       replicate (min (length ts) (max_concurrent_requests cfg - Suc k)) Admitted @
       replicate (length ts - (max_concurrent_requests cfg - Suc k)) (Rejected ConcurrencyExceeded)"
      by (rule Cons.IH)
    have m: "max_concurrent_requests cfg - k = Suc (max_concurrent_requests cfg - Suc k)"
      using True by simp
    show ?thesis
      using step IH by (simp add: m)
  next
    case False
    with Cons.prems have k: "k = max_concurrent_requests cfg" by simp
    define s1 where "s1 = s\<lparr>window_counts := ?w\<rparr>"
    have step: "try_acquire cfg t s = (Rejected ConcurrencyExceeded, s1)"
      using k Cons.prems open_gate by (simp add: try_acquire_def Let_def s1_def)
    have "in_flight_count s1 = int k" using Cons.prems by (simp add: s1_def)
    moreover have "k \<le> max_concurrent_requests cfg" using k by simp
    moreover have "window_sum (window_counts s1) + (max_concurrent_requests cfg - k) < rate_limit_per_minute cfg"
      using le Cons.prems by (simp add: s1_def)
    ultimately have IH: "outcomes cfg (map TryAcquire ts) s1 =
       replicate (min (length ts) (max_concurrent_requests cfg - k)) Admitted @
       replicate (length ts - (max_concurrent_requests cfg - k)) (Rejected ConcurrencyExceeded)"
      by (rule Cons.IH)
    show ?thesis
      using step IH k by simp
  qed
qed

lemma acquire_only_initial:
  assumes "max_concurrent_requests cfg < rate_limit_per_minute cfg"
    and "max_concurrent_requests cfg < length ts"
  shows "outcomes cfg (map TryAcquire ts) initial_admission =
     replicate (max_concurrent_requests cfg) Admitted @
     replicate (length ts - max_concurrent_requests cfg) (Rejected ConcurrencyExceeded)"
proof -
  have "outcomes cfg (map TryAcquire ts) initial_admission =
     replicate (min (length ts) (max_concurrent_requests cfg - 0)) Admitted @
     replicate (length ts - (max_concurrent_requests cfg - 0)) (Rejected ConcurrencyExceeded)"
    by (rule acquire_only) (use assms in \<open>simp_all add: initial_admission_def window_sum_def\<close>)
  with assms(2) show ?thesis by (simp add: min_def)
qed

lemma in_flight_after_event:
  assumes "0 \<le> in_flight_count s" "in_flight_count s \<le> int (max_concurrent_requests cfg)"
  shows "0 \<le> in_flight_count (after_event cfg ev s) \<and>
         in_flight_count (after_event cfg ev s) \<le> int (max_concurrent_requests cfg)"
  using assms by (cases ev) (auto simp: try_acquire_def Let_def release_def)

lemma in_flight_final_state:
  assumes "0 \<le> in_flight_count s" "in_flight_count s \<le> int (max_concurrent_requests cfg)"
  shows "0 \<le> in_flight_count (final_state cfg evs s) \<and>
         in_flight_count (final_state cfg evs s) \<le> int (max_concurrent_requests cfg)"
  using assms
proof (induction evs arbitrary: s)
  case Nil
  then show ?case by simp
next
  case (Cons ev evs)
  from in_flight_after_event [OF Cons.prems, of ev]
  show ?case by (simp add: Cons.IH)
qed

lemma release_then_acquire:
  assumes sat: "in_flight_count s = int (max_concurrent_requests cfg)"
    and pos: "0 < max_concurrent_requests cfg"
    and gate: "window_sum (expire_buckets now (window_counts s)) < rate_limit_per_minute cfg"
  shows "release s = Some (s\<lparr>in_flight_count := in_flight_count s - 1\<rparr>) \<and>
         fst (try_acquire cfg now (s\<lparr>in_flight_count := in_flight_count s - 1\<rparr>)) = Admitted \<and>
         fst (try_acquire cfg later
                (snd (try_acquire cfg now (s\<lparr>in_flight_count := in_flight_count s - 1\<rparr>))))
           \<noteq> Admitted"
  using assms by (auto simp: release_def try_acquire_def Let_def)

subsection \<open>The sliding window\<close>

lemma rate_limited_iff:
  "fst (try_acquire cfg now s) = Rejected RateLimited \<longleftrightarrow>
     rate_limit_per_minute cfg \<le> window_sum (expire_buckets now (window_counts s))"
  by (simp add: try_acquire_def Let_def)

lemma expire_expire:
  assumes "t \<le> now"
  shows "expire_buckets now (expire_buckets t w) = expire_buckets now w"
  using assms by (induction w) (auto simp: expire_buckets_def)

lemma expire_record:
  assumes "now \<le> t + 60"
  shows "window_sum (expire_buckets now (record_request t w)) = window_sum (expire_buckets now w) + 1"
  using assms by (cases w) (auto simp: expire_buckets_def window_sum_def)

lemma window_after_acquire:
  assumes "t \<le> now" "now \<le> t + 60"
  shows "window_sum (expire_buckets now (window_counts (snd (try_acquire cfg t s)))) =
         window_sum (expire_buckets now (window_counts s)) +
         (if fst (try_acquire cfg t s) = Admitted then 1 else 0)"
  using assms by (simp add: try_acquire_def Let_def expire_expire expire_record)

lemma window_after_release:
  "window_counts (after_event cfg Release s) = window_counts s"
  by (simp add: release_def)

text \<open>
  While every call of a run lies in the minute that ends at \<open>now\<close>, no bucket the run
  fills has expired at \<open>now\<close>: the window has grown by the number of admitted calls.
\<close>

lemma window_counts_admitted:
  assumes "list_all (\<lambda>t. t \<le> now \<and> now \<le> t + 60) (acquire_times evs)"
  shows "window_sum (expire_buckets now (window_counts (final_state cfg evs s))) =
         window_sum (expire_buckets now (window_counts s)) + count_admitted (outcomes cfg evs s)"
  using assms
proof (induction evs arbitrary: s)
  case Nil
  then show ?case by (simp add: count_admitted_def)
next
  case (Cons ev evs)
  show ?case
  proof (cases ev)
    case (TryAcquire t)
    with Cons.prems have t: "t \<le> now" "now \<le> t + 60"
      and rest: "list_all (\<lambda>t. t \<le> now \<and> now \<le> t + 60) (acquire_times evs)" by simp_all
    from Cons.IH [OF rest, of "snd (try_acquire cfg t s)"] window_after_acquire [OF t, of cfg s]
    show ?thesis using TryAcquire by (simp add: count_admitted_def)
  next
    case Release
    with Cons.prems have rest: "list_all (\<lambda>t. t \<le> now \<and> now \<le> t + 60) (acquire_times evs)" by simp
    from Cons.IH [OF rest, of "after_event cfg Release s"]
    show ?thesis using Release by (simp add: window_after_release del: after_event.simps)
  qed
qed

lemma limit_reached_in_window:
  assumes "list_all (\<lambda>t. t \<le> now \<and> now \<le> t + 60) (acquire_times evs)"
    and "rate_limit_per_minute cfg \<le> count_admitted (outcomes cfg evs s)"
  shows "fst (try_acquire cfg now (final_state cfg evs s)) = Rejected RateLimited"
  using window_counts_admitted [OF assms(1), of cfg s] assms(2)
  by (simp add: rate_limited_iff)

lemma list_all_expire: "list_all P w \<Longrightarrow> list_all P (expire_buckets now w)"
  by (simp add: expire_buckets_def list_all_iff)

lemma list_all_record:
  "list_all (\<lambda>(t, c). 0 < c) w \<Longrightarrow> list_all (\<lambda>(t, c). 0 < c) (record_request now w)"
  by (cases w) auto

lemma window_ok_after_event:
  assumes "window_ok (rate_limit_per_minute cfg) (window_counts s)"
  shows "window_ok (rate_limit_per_minute cfg) (window_counts (after_event cfg ev s))"
proof (cases ev)
  case (TryAcquire t)
  have "window_sum (expire_buckets t (window_counts s)) \<le> window_sum (window_counts s)"
    by (rule window_sum_expire_le)
  then show ?thesis using assms TryAcquire
    by (auto simp: window_ok_def try_acquire_def Let_def window_sum_record list_all_expire list_all_record)
next
  case Release
  then show ?thesis using assms by (simp add: release_def)
qed

lemma window_ok_final_state:
  assumes "window_ok (rate_limit_per_minute cfg) (window_counts s)"
  shows "window_ok (rate_limit_per_minute cfg) (window_counts (final_state cfg evs s))"
  using assms
proof (induction evs arbitrary: s)
  case Nil
  then show ?case by simp
next
  case (Cons ev evs)
  from window_ok_after_event [OF Cons.prems, of ev] show ?case by (simp add: Cons.IH)
qed

lemma expired_bucket_frees:
  assumes "(t, c) \<in> set w" "t + 60 < now"
  shows "window_sum (expire_buckets now w) + c \<le> window_sum w"
  using assms
proof (induction w)
  case Nil
  then show ?case by simp
next
  case (Cons b w)
  have le: "window_sum (expire_buckets now w) \<le> window_sum w" by (rule window_sum_expire_le)
  show ?case
  proof (cases "b = (t, c)")
    case True
    then show ?thesis using Cons.prems le by (simp add: expire_buckets_def window_sum_def)
  next
    case False
    with Cons.prems have "(t, c) \<in> set w" by simp
    from Cons.IH [OF this Cons.prems(2)] show ?thesis
      by (cases b) (simp add: expire_buckets_def window_sum_def)
  qed
qed

lemma capacity_returns:
  assumes ok: "window_ok (rate_limit_per_minute cfg) (window_counts s)"
    and b: "(t, c) \<in> set (window_counts s)" and old: "t + 60 < now"
  shows "window_sum (expire_buckets now (window_counts s)) < rate_limit_per_minute cfg"
proof -
  from ok b have "0 < c" by (auto simp: window_ok_def list_all_iff)
  moreover from expired_bucket_frees [OF b old]
  have "window_sum (expire_buckets now (window_counts s)) + c \<le> window_sum (window_counts s)" .
  moreover from ok have "window_sum (window_counts s) \<le> rate_limit_per_minute cfg"
    by (simp add: window_ok_def)
  ultimately show ?thesis by linarith
qed

lemma capacity_returns_reachable:
  assumes b: "(t, c) \<in> set (window_counts (final_state cfg evs initial_admission))"
    and old: "t + 60 < now"
  shows "fst (try_acquire cfg now (final_state cfg evs initial_admission)) \<noteq> Rejected RateLimited"
    and "in_flight_count (final_state cfg evs initial_admission) < int (max_concurrent_requests cfg)
         \<Longrightarrow> fst (try_acquire cfg now (final_state cfg evs initial_admission)) = Admitted"
proof -
  have "window_ok (rate_limit_per_minute cfg) (window_counts initial_admission)"
    by (simp add: window_ok_def initial_admission_def window_sum_def)
  then have "window_ok (rate_limit_per_minute cfg) (window_counts (final_state cfg evs initial_admission))"
    by (rule window_ok_final_state)
  from capacity_returns [OF this b old]
  have gate: "window_sum (expire_buckets now (window_counts (final_state cfg evs initial_admission)))
      < rate_limit_per_minute cfg" .
  then show "fst (try_acquire cfg now (final_state cfg evs initial_admission)) \<noteq> Rejected RateLimited"
    by (simp add: rate_limited_iff)
  show "fst (try_acquire cfg now (final_state cfg evs initial_admission)) = Admitted"
    if "in_flight_count (final_state cfg evs initial_admission) < int (max_concurrent_requests cfg)"
    using gate that by (simp add: try_acquire_def Let_def)
qed

text \<open>
  Claim C2, as amended. (1) \<open>try_acquire\<close> returns \<open>Rejected RateLimited\<close> exactly when
  the counts of the buckets of the trailing 60 seconds sum to the limit or more.
  (2) After any run of attempts and releases, from any state, whose attempts all lie
  in the 60 seconds that end at \<open>now\<close> and of which as many as the limit were admitted
  (60 for the default limit), the next attempt, at \<open>now\<close>, is rejected with
  \<open>RateLimited\<close>. (3) In every state reached from the idle controller, once a
  bucket of the window is more than 60 seconds old the rate gate is open again: the
  attempt is not rejected with \<open>RateLimited\<close>, and it is admitted when a concurrency
  slot is free.
\<close>

theorem sliding_window_rate_gate:
  "(fst (try_acquire cfg now s) = Rejected RateLimited) =
     (rate_limit_per_minute cfg \<le> window_sum (expire_buckets now (window_counts s)))
   \<and> (list_all (\<lambda>t. t \<le> now \<and> now \<le> t + 60) (acquire_times evs) \<and>
      rate_limit_per_minute cfg \<le> count_admitted (outcomes cfg evs s) \<longrightarrow>
        fst (try_acquire cfg now (final_state cfg evs s)) = Rejected RateLimited)
   \<and> ((t, c) \<in> set (window_counts (final_state cfg run initial_admission)) \<and> t + 60 < later \<longrightarrow>
        fst (try_acquire cfg later (final_state cfg run initial_admission)) \<noteq> Rejected RateLimited \<and>
        (in_flight_count (final_state cfg run initial_admission) < int (max_concurrent_requests cfg) \<longrightarrow>
           fst (try_acquire cfg later (final_state cfg run initial_admission)) = Admitted))"
  using rate_limited_iff [of cfg now s] limit_reached_in_window [of now evs cfg s]
    capacity_returns_reachable [of t c cfg run later]
  by blast

lemma sixty_outcomes:
  "outcomes default_admission_config sixty_requests initial_admission = replicate 60 Admitted"
  by code_simp

lemma sixty_times:
  "list_all (\<lambda>t. t \<le> 60 \<and> 60 \<le> t + 60) (acquire_times sixty_requests)"
  by code_simp

lemma sixty_final:
  "final_state default_admission_config (sixty_requests @ [TryAcquire 60]) initial_admission =
     \<lparr> in_flight_count = 0, window_counts = map (\<lambda>t. (t, 1)) (rev [0..<60]) \<rparr>"
  by code_simp

text \<open>
  The default configuration: sixty requests, one in each of the seconds 0 to 59, each
  released, are all admitted; the 61st, in second 60, is \<open>RateLimited\<close>; in second 61
  the bucket of second 0 has expired and the attempt is admitted.
\<close>

theorem sliding_window_rate_gate_witness:
  "rate_limit_per_minute default_admission_config = 60
   \<and> list_all (\<lambda>t. t \<le> 60 \<and> 60 \<le> t + 60) (acquire_times sixty_requests)
   \<and> count_admitted (outcomes default_admission_config sixty_requests initial_admission) = 60
   \<and> fst (try_acquire default_admission_config 60
            (final_state default_admission_config sixty_requests initial_admission))
       = Rejected RateLimited
   \<and> (0, 1) \<in> set (window_counts
         (final_state default_admission_config (sixty_requests @ [TryAcquire 60]) initial_admission))
   \<and> fst (try_acquire default_admission_config 61
            (final_state default_admission_config (sixty_requests @ [TryAcquire 60]) initial_admission))
       = Admitted"
proof -
  have h0: "rate_limit_per_minute default_admission_config = 60"
    by (simp add: default_admission_config_def)
  have h1: "list_all (\<lambda>t. t \<le> 60 \<and> 60 \<le> t + 60) (acquire_times sixty_requests)"
    by (rule sixty_times)
  have h2: "count_admitted (outcomes default_admission_config sixty_requests initial_admission) = 60"
    by (simp add: sixty_outcomes count_admitted_def)
  have h3: "(0, 1) \<in> set (window_counts
         (final_state default_admission_config (sixty_requests @ [TryAcquire 60]) initial_admission))"
    by (simp add: sixty_final)
  have h4: "in_flight_count
         (final_state default_admission_config (sixty_requests @ [TryAcquire 60]) initial_admission)
       < int (max_concurrent_requests default_admission_config)"
    unfolding sixty_final by (simp add: default_admission_config_def)
  from sliding_window_rate_gate
         [of default_admission_config 60 initial_admission sixty_requests 0 1
             "sixty_requests @ [TryAcquire 60]" 61]
       h0 h1 h2 h3 h4
  show ?thesis by simp
qed

text \<open>
  The claim as it stands fails for 61 calls of which fewer than 60 were admitted: with
  the defaults and no release, 61 calls in second 0 fill the ten slots, rejected calls
  are not counted in the window, and the 61st call is rejected with
  \<open>ConcurrencyExceeded\<close>, not with \<open>RateLimited\<close>.
\<close>

theorem sliding_window_rate_gate_counterexample:
  "rate_limit_per_minute default_admission_config = 60
   \<and> length (map TryAcquire (replicate 61 0)) = 61
   \<and> outcomes default_admission_config (map TryAcquire (replicate 61 0)) initial_admission ! 60
       = Rejected ConcurrencyExceeded"
proof -
  have "outcomes default_admission_config (map TryAcquire (replicate 61 0)) initial_admission ! 60
       = Rejected ConcurrencyExceeded"
    by code_simp
  then show ?thesis by (simp add: default_admission_config_def)
qed

end
